theory Spec2Isabelle
  imports Main "HOL-Library.Word"
begin

section \<open>The matrix buffer of matrix.h\<close>

text \<open>
  The header declares one aggregate, \<open>MatrixType<T>\<close>, with its accessors, three static
  creation functions, \<open>copyFrom\<close>, and the free functions \<open>Create*Matrix\<close> and
  \<open>FreeMatrix\<close>. The spec calls the allocation kinds Host, Device and Unified; the
  source calls them \<open>CPU\<close>, \<open>GPU\<close> and \<open>Managed\<close>, and the names below are the source's.
\<close>

subsection \<open>Data\<close>

text \<open>
  \<open>int\<close> is a 32-bit two's complement integer and \<open>sint\<close> reads its value. \<open>*\<close>
  and \<open>+\<close> wrap around: C++ leaves signed overflow undefined, and wrapping is what the
  compiled code does. \<open>size_t\<close> is an unsigned 64-bit integer; the conversion of an
  \<open>int\<close> to \<open>size_t\<close> is \<open>scast\<close> (sign extension). The element type \<open>T\<close> enters
  the code through \<open>sizeof(T)\<close> only, a \<open>size_t\<close> that every function below takes as
  its first argument \<open>sz\<close>. Memory is a sequence of bytes.
\<close>

type_synonym cint = "32 word"
type_synonym size_t = "64 word"
type_synonym byte = "8 word"

datatype MatrixAllocationType = Empty | CPU | GPU | Managed

text \<open>
  A \<open>T*\<close> is the null pointer or the start of an allocation. The source never forms
  another pointer that it dereferences or hands to a transfer: every access goes through
  \<open>raw\<close>, which the creation functions set to the pointer the allocator returned.
\<close>

datatype ptr = Null | Addr nat

record MatrixType =
  raw :: ptr
  col :: cint
  row :: cint
  allocationType :: MatrixAllocationType

subsection \<open>Memory and the allocation backend\<close>

text \<open>
  Modelled from the spec: the memory backend. The header calls \<open>operator new[]\<close>,
  \<open>cudaMalloc\<close>, \<open>cudaMallocManaged\<close>, \<open>memcpy\<close>, \<open>cudaMemcpy\<close>, \<open>delete[]\<close> and
  \<open>cudaFree\<close> and declares none of them; the spec lists them as the external
  collaborator (three allocators, two releases, four synchronous transfers) and names
  the three spaces: host memory, device memory, and unified memory addressable from
  both sides. Their contract is written on an explicit store: a list of allocations,
  the address of an allocation being its position, a released allocation leaving
  \<open>None\<close> behind. Each allocation records the space it lives in and its bytes.
\<close>

datatype space = HostMem | DeviceMem | ManagedMem

record block =
  space :: space
  cells :: "byte list"

type_synonym heap = "block option list"

definition block_at :: "heap \<Rightarrow> nat \<Rightarrow> block option" where
  "block_at h a = (if a < length h then h ! a else None)"

text \<open>
  What the source can run into: the two exceptions of \<open>new T[n]\<close>, an access outside a
  live allocation of the right space, the release of something that is not a live
  allocation, and a function body that names something that is not an object.
\<close>

datatype fault =
    BadArrayNewLength
  | BadAlloc
  | InvalidAccess
  | InvalidFree
  | IllFormed

text \<open>
  Modelled from the spec: the backend's answer to one allocation request. It grants the
  request, and the fresh region then holds whatever it holds (the spec: contents
  uninitialized; the function gives the byte at each position), or it refuses (the
  spec's \<open>AllocationFailure\<close>).
\<close>

datatype reply = Granted "nat \<Rightarrow> byte" | Refused

definition allocate :: "space \<Rightarrow> nat \<Rightarrow> (nat \<Rightarrow> byte) \<Rightarrow> heap \<Rightarrow> ptr \<times> heap" where
  "allocate sp n junk h =
     (Addr (length h), h @ [Some \<lparr>space = sp, cells = map junk [0..<n]\<rparr>])"

text \<open>
  Modelled from the spec: host allocation, \<open>new T[n]\<close> with \<open>n\<close> an \<open>int\<close>. A negative
  length, or one whose byte count \<open>sizeof(T) * n\<close> does not fit \<open>size_t\<close>, throws
  \<open>std::bad_array_new_length\<close>; a refused request throws \<open>std::bad_alloc\<close>.
\<close>

definition new_array :: "size_t \<Rightarrow> reply \<Rightarrow> cint \<Rightarrow> heap \<Rightarrow> fault + (ptr \<times> heap)" where
  "new_array sz reply n h =
     (if n <s 0 \<or> 2 ^ 64 \<le> unat sz * nat (sint n) then Inl BadArrayNewLength
      else case reply of
             Refused \<Rightarrow> Inl BadAlloc
           | Granted junk \<Rightarrow> Inr (allocate HostMem (unat sz * nat (sint n)) junk h))"

text \<open>
  Modelled from the spec: device and unified allocation. \<open>cudaMalloc (&p, size)\<close> and
  \<open>cudaMallocManaged (&p, size)\<close> take the byte count as a \<open>size_t\<close>, write the new
  pointer through their first argument when the request is granted and leave it alone
  otherwise (they return a status, which the source drops). The first component of the
  result is the pointer written, if any.
\<close>

definition cudaMalloc :: "reply \<Rightarrow> size_t \<Rightarrow> heap \<Rightarrow> ptr option \<times> heap" where
  "cudaMalloc reply nbytes h =
     (case reply of
        Refused \<Rightarrow> (None, h)
      | Granted junk \<Rightarrow> (let (p, h') = allocate DeviceMem (unat nbytes) junk h in (Some p, h')))"

definition cudaMallocManaged :: "reply \<Rightarrow> size_t \<Rightarrow> heap \<Rightarrow> ptr option \<times> heap" where
  "cudaMallocManaged reply nbytes h =
     (case reply of
        Refused \<Rightarrow> (None, h)
      | Granted junk \<Rightarrow> (let (p, h') = allocate ManagedMem (unat nbytes) junk h in (Some p, h')))"

text \<open>
  Modelled from the spec: the transfers. Host code addresses host and managed memory,
  the device addresses device and managed memory. A transfer of \<open>n\<close> bytes reads the
  first \<open>n\<close> bytes of the source allocation and overwrites the first \<open>n\<close> bytes of the
  destination allocation; it needs both allocations live, on the side the primitive
  works on, and at least \<open>n\<close> bytes long. Anything else is undefined behaviour. The
  source's bytes are read before the destination is written, so a transfer from an
  allocation to itself (the only overlap two start-of-allocation pointers can have)
  leaves its bytes as they are.
\<close>

definition host_side :: "space \<Rightarrow> bool" where
  "host_side sp = (sp \<noteq> DeviceMem)"

definition device_side :: "space \<Rightarrow> bool" where
  "device_side sp = (sp \<noteq> HostMem)"

definition transfer ::
  "(space \<Rightarrow> bool) \<Rightarrow> (space \<Rightarrow> bool) \<Rightarrow> ptr \<Rightarrow> ptr \<Rightarrow> nat \<Rightarrow> heap \<Rightarrow> fault + heap" where
  "transfer dst_ok src_ok dst src n h =
     (case dst of
        Null \<Rightarrow> Inl InvalidAccess
      | Addr da \<Rightarrow>
         (case src of
            Null \<Rightarrow> Inl InvalidAccess
          | Addr sa \<Rightarrow>
             (case block_at h da of
                None \<Rightarrow> Inl InvalidAccess
              | Some db \<Rightarrow>
                 (case block_at h sa of
                    None \<Rightarrow> Inl InvalidAccess
                  | Some sb \<Rightarrow>
                     if dst_ok (space db) \<and> src_ok (space sb)
                        \<and> n \<le> length (cells db) \<and> n \<le> length (cells sb)
                     then Inr (h[da := Some (db\<lparr>cells := take n (cells sb) @ drop n (cells db)\<rparr>)])
                     else Inl InvalidAccess))))"

definition memcpy :: "ptr \<Rightarrow> ptr \<Rightarrow> size_t \<Rightarrow> heap \<Rightarrow> fault + heap" where
  "memcpy dst src count h = transfer host_side host_side dst src (unat count) h"

datatype cudaMemcpyKind =
  cudaMemcpyHostToDevice | cudaMemcpyDeviceToHost | cudaMemcpyDeviceToDevice

definition cudaMemcpy :: "ptr \<Rightarrow> ptr \<Rightarrow> size_t \<Rightarrow> cudaMemcpyKind \<Rightarrow> heap \<Rightarrow> fault + heap" where
  "cudaMemcpy dst src count kind h =
     (case kind of
        cudaMemcpyHostToDevice \<Rightarrow> transfer device_side host_side dst src (unat count) h
      | cudaMemcpyDeviceToHost \<Rightarrow> transfer host_side device_side dst src (unat count) h
      | cudaMemcpyDeviceToDevice \<Rightarrow> transfer device_side device_side dst src (unat count) h)"

text \<open>
  Modelled from the spec: the releases. \<open>delete[] p\<close> and \<open>cudaFree (p)\<close> accept the
  null pointer and do nothing; otherwise \<open>p\<close> must be a live allocation of the matching
  allocator, and releasing anything else (a second release included) is undefined
  behaviour.
\<close>

definition release :: "(space \<Rightarrow> bool) \<Rightarrow> ptr \<Rightarrow> heap \<Rightarrow> fault + heap" where
  "release sp_ok p h =
     (case p of
        Null \<Rightarrow> Inr h
      | Addr a \<Rightarrow>
         (case block_at h a of
            None \<Rightarrow> Inl InvalidFree
          | Some b \<Rightarrow> if sp_ok (space b) then Inr (h[a := None]) else Inl InvalidFree))"

definition delete_array :: "ptr \<Rightarrow> heap \<Rightarrow> fault + heap" where
  "delete_array p h = release (\<lambda>sp. sp = HostMem) p h"

definition cudaFree :: "ptr \<Rightarrow> heap \<Rightarrow> fault + heap" where
  "cudaFree p h = release (\<lambda>sp. sp \<noteq> HostMem) p h"

subsection \<open>Names in the static member functions\<close>

text \<open>
  \<open>CreateCPU\<close> and \<open>CreateGPU\<close> declare a local \<open>T* data\<close>. \<open>CreateManaged\<close> uses the
  name \<open>data\<close> in the same two places as \<open>CreateGPU\<close> (\<open>&data\<close> as the out-parameter
  of the allocator, \<open>data\<close> as the first field of the result) but declares nothing.
  An unqualified name is looked up among the function's parameters and locals first
  and in the class next, where \<open>data\<close> is the pair of non-static member functions
  \<open>data()\<close>: something that has no address of type \<open>T**\<close> and does not convert to
  \<open>T*\<close>. A body in which \<open>data\<close> is not a local variable is ill-formed, and so is
  every function template whose body calls it: none of them can be instantiated, which
  is decided before anything runs and so before any test on the arguments.
\<close>

datatype entity = LocalVariable | DataMember | MemberFunction | StaticMemberFunction | Undeclared

definition MatrixType_members :: "(string \<times> entity) list" where
  "MatrixType_members =
     [(''raw'', DataMember), (''col'', DataMember), (''row'', DataMember),
      (''allocationType'', DataMember),
      (''rows'', MemberFunction), (''cols'', MemberFunction), (''size'', MemberFunction),
      (''data'', MemberFunction), (''cbegin'', MemberFunction), (''begin'', MemberFunction),
      (''cend'', MemberFunction), (''end'', MemberFunction),
      (''CreateCPU'', StaticMemberFunction), (''CreateGPU'', StaticMemberFunction),
      (''CreateManaged'', StaticMemberFunction), (''copyFrom'', MemberFunction)]"

definition resolve :: "string list \<Rightarrow> string \<Rightarrow> entity" where
  "resolve locals name =
     (if name \<in> set locals then LocalVariable
      else case map_of MatrixType_members name of Some e \<Rightarrow> e | None \<Rightarrow> Undeclared)"

definition CreateGPU_locals :: "string list" where
  "CreateGPU_locals = [''cols'', ''rows'', ''data'']"

definition CreateManaged_locals :: "string list" where
  "CreateManaged_locals = [''cols'', ''rows'']"

definition instantiable :: "string list \<Rightarrow> bool" where
  "instantiable locals = (resolve locals ''data'' = LocalVariable)"

subsection \<open>Accessors\<close>

definition rows :: "MatrixType \<Rightarrow> cint" where
  "rows m = row m"

definition cols :: "MatrixType \<Rightarrow> cint" where
  "cols m = col m"

definition size_matrix :: "MatrixType \<Rightarrow> cint" where
  "size_matrix m = row m * col m"

definition data :: "MatrixType \<Rightarrow> ptr" where
  "data m = raw m"

text \<open>
  \<open>end()\<close> is \<open>raw + (col * row)\<close> and \<open>begin()\<close> is \<open>raw\<close>: the number of elements
  between them is the \<open>int\<close> that is added.
\<close>

definition end_minus_begin :: "MatrixType \<Rightarrow> cint" where
  "end_minus_begin m = col m * row m"

text \<open>
  \<open>raw[i]\<close>: the element \<open>i\<close> of the allocation \<open>raw\<close> points to, which is its
  \<open>sizeof(T)\<close> bytes from byte \<open>sizeof(T) * i\<close> on. Both operators are compiled for the
  host and for the device, so the side is not part of the model; the pointer has to be
  a live allocation and the whole element inside it.
\<close>

definition subscript :: "size_t \<Rightarrow> heap \<Rightarrow> ptr \<Rightarrow> cint \<Rightarrow> fault + byte list" where
  "subscript sz h p i =
     (case p of
        Null \<Rightarrow> Inl InvalidAccess
      | Addr a \<Rightarrow>
         (case block_at h a of
            None \<Rightarrow> Inl InvalidAccess
          | Some b \<Rightarrow>
             if 0 \<le>s i \<and> unat sz * (nat (sint i) + 1) \<le> length (cells b)
             then Inr (take (unat sz) (drop (unat sz * nat (sint i)) (cells b)))
             else Inl InvalidAccess))"

text \<open>\<open>operator() (int c, int r)\<close> and \<open>operator[] (int i)\<close>, read on the store \<open>h\<close>.\<close>

definition operator_call :: "size_t \<Rightarrow> MatrixType \<Rightarrow> cint \<Rightarrow> cint \<Rightarrow> heap \<Rightarrow> fault + byte list" where
  "operator_call sz m c r h = subscript sz h (raw m) (r * col m + c)"

definition operator_index :: "size_t \<Rightarrow> MatrixType \<Rightarrow> cint \<Rightarrow> heap \<Rightarrow> fault + byte list" where
  "operator_index sz m i h = subscript sz h (raw m) i"

subsection \<open>Creation\<close>

text \<open>
  The three static functions take \<open>(int cols, int rows)\<close>. \<open>CreateCPU\<close> passes the
  \<open>int\<close> product \<open>rows * cols\<close> to \<open>new\<close>; the other two pass
  \<open>sizeof(T) * rows * cols\<close>, which is computed in \<open>size_t\<close> from left to right.
  \<open>CreateGPU\<close> declares \<open>data\<close> without a value and never looks at the allocator's
  status: when the request is refused it returns the buffer all the same, with whatever
  the variable held. That indeterminate pointer is the argument \<open>stale\<close>.
\<close>

definition CreateCPU ::
  "size_t \<Rightarrow> reply \<Rightarrow> cint \<Rightarrow> cint \<Rightarrow> heap \<Rightarrow> fault + (MatrixType \<times> heap)" where
  "CreateCPU sz reply ncols nrows h =
     (case new_array sz reply (nrows * ncols) h of
        Inl e \<Rightarrow> Inl e
      | Inr (p, h') \<Rightarrow>
          Inr (\<lparr>raw = p, col = ncols, row = nrows, allocationType = CPU\<rparr>, h'))"

definition CreateGPU ::
  "size_t \<Rightarrow> ptr \<Rightarrow> reply \<Rightarrow> cint \<Rightarrow> cint \<Rightarrow> heap \<Rightarrow> fault + (MatrixType \<times> heap)" where
  "CreateGPU sz stale reply ncols nrows h =
     (if \<not> instantiable CreateGPU_locals then Inl IllFormed
      else
        let (written, h') = cudaMalloc reply (sz * scast nrows * scast ncols) h;
            p = (case written of None \<Rightarrow> stale | Some q \<Rightarrow> q)
        in Inr (\<lparr>raw = p, col = ncols, row = nrows, allocationType = GPU\<rparr>, h'))"

definition CreateManaged ::
  "size_t \<Rightarrow> ptr \<Rightarrow> reply \<Rightarrow> cint \<Rightarrow> cint \<Rightarrow> heap \<Rightarrow> fault + (MatrixType \<times> heap)" where
  "CreateManaged sz stale reply ncols nrows h =
     (if \<not> instantiable CreateManaged_locals then Inl IllFormed
      else
        let (written, h') = cudaMallocManaged reply (sz * scast nrows * scast ncols) h;
            p = (case written of None \<Rightarrow> stale | Some q \<Rightarrow> q)
        in Inr (\<lparr>raw = p, col = ncols, row = nrows, allocationType = Managed\<rparr>, h'))"

definition CreateCPUMatrix ::
  "size_t \<Rightarrow> reply \<Rightarrow> cint \<Rightarrow> cint \<Rightarrow> heap \<Rightarrow> fault + (MatrixType \<times> heap)" where
  "CreateCPUMatrix sz reply ncols nrows h = CreateCPU sz reply ncols nrows h"

definition CreateGPUMatrix ::
  "size_t \<Rightarrow> ptr \<Rightarrow> reply \<Rightarrow> cint \<Rightarrow> cint \<Rightarrow> heap \<Rightarrow> fault + (MatrixType \<times> heap)" where
  "CreateGPUMatrix sz stale reply ncols nrows h =
     (if \<not> instantiable CreateGPU_locals then Inl IllFormed
      else CreateGPU sz stale reply ncols nrows h)"

definition CreateManagedMatrix ::
  "size_t \<Rightarrow> ptr \<Rightarrow> reply \<Rightarrow> cint \<Rightarrow> cint \<Rightarrow> heap \<Rightarrow> fault + (MatrixType \<times> heap)" where
  "CreateManagedMatrix sz stale reply ncols nrows h =
     (if \<not> instantiable CreateManaged_locals then Inl IllFormed
      else CreateManaged sz stale reply ncols nrows h)"

subsection \<open>copyFrom\<close>

text \<open>
  Every transfer branch passes \<open>sizeof(T) * size()\<close> with \<open>size()\<close> the destination's
  own: the \<open>int\<close> is converted to \<open>size_t\<close> and the product wraps in \<open>size_t\<close>. The
  function assigns to no field of \<open>*this\<close>; the object is returned as it was, beside
  the new store.
\<close>

definition transfer_count :: "size_t \<Rightarrow> MatrixType \<Rightarrow> size_t" where
  "transfer_count sz m = sz * scast (size_matrix m)"

definition copyFrom ::
  "size_t \<Rightarrow> MatrixType \<Rightarrow> MatrixType \<Rightarrow> heap \<Rightarrow> fault + (MatrixType \<times> heap)" where
  "copyFrom sz this other h =
     (case
        (case allocationType this of
           CPU \<Rightarrow>
             (case allocationType other of
                CPU \<Rightarrow> memcpy (raw this) (raw other) (transfer_count sz this) h
              | Managed \<Rightarrow> memcpy (raw this) (raw other) (transfer_count sz this) h
              | GPU \<Rightarrow>
                  cudaMemcpy (raw this) (raw other) (transfer_count sz this)
                    cudaMemcpyDeviceToHost h
              | Empty \<Rightarrow> Inr h)
         | GPU \<Rightarrow>
             (case allocationType other of
                CPU \<Rightarrow>
                  cudaMemcpy (raw this) (raw other) (transfer_count sz this)
                    cudaMemcpyHostToDevice h
              | Managed \<Rightarrow>
                  cudaMemcpy (raw this) (raw other) (transfer_count sz this)
                    cudaMemcpyHostToDevice h
              | GPU \<Rightarrow>
                  cudaMemcpy (raw this) (raw other) (transfer_count sz this)
                    cudaMemcpyDeviceToDevice h
              | Empty \<Rightarrow> Inr h)
         | Managed \<Rightarrow>
             (case allocationType other of
                CPU \<Rightarrow> memcpy (raw this) (raw other) (transfer_count sz this) h
              | Managed \<Rightarrow> memcpy (raw this) (raw other) (transfer_count sz this) h
              | GPU \<Rightarrow>
                  cudaMemcpy (raw this) (raw other) (transfer_count sz this)
                    cudaMemcpyDeviceToHost h
              | Empty \<Rightarrow> Inr h)
         | Empty \<Rightarrow> Inr h)
      of
        Inl e \<Rightarrow> Inl e
      | Inr h' \<Rightarrow> Inr (this, h'))"

subsection \<open>Clones and release\<close>

text \<open>
  The clone templates call the creation function of their kind, so each can be
  instantiated only if that function can.
\<close>

definition CreateCPUMatrix_from ::
  "size_t \<Rightarrow> reply \<Rightarrow> MatrixType \<Rightarrow> heap \<Rightarrow> fault + (MatrixType \<times> heap)" where
  "CreateCPUMatrix_from sz reply other h =
     (if allocationType other = Empty
      then Inr (\<lparr>raw = Null, col = 0, row = 0, allocationType = Empty\<rparr>, h)
      else case CreateCPUMatrix sz reply (cols other) (rows other) h of
             Inl e \<Rightarrow> Inl e
           | Inr (result, h') \<Rightarrow> copyFrom sz result other h')"

definition CreateGPUMatrix_from ::
  "size_t \<Rightarrow> ptr \<Rightarrow> reply \<Rightarrow> MatrixType \<Rightarrow> heap \<Rightarrow> fault + (MatrixType \<times> heap)" where
  "CreateGPUMatrix_from sz stale reply other h =
     (if \<not> instantiable CreateGPU_locals then Inl IllFormed
      else if allocationType other = Empty
      then Inr (\<lparr>raw = Null, col = 0, row = 0, allocationType = Empty\<rparr>, h)
      else case CreateGPUMatrix sz stale reply (cols other) (rows other) h of
             Inl e \<Rightarrow> Inl e
           | Inr (result, h') \<Rightarrow> copyFrom sz result other h')"

definition CreateManagedMatrix_from ::
  "size_t \<Rightarrow> ptr \<Rightarrow> reply \<Rightarrow> MatrixType \<Rightarrow> heap \<Rightarrow> fault + (MatrixType \<times> heap)" where
  "CreateManagedMatrix_from sz stale reply other h =
     (if \<not> instantiable CreateManaged_locals then Inl IllFormed
      else if allocationType other = Empty
      then Inr (\<lparr>raw = Null, col = 0, row = 0, allocationType = Empty\<rparr>, h)
      else case CreateManagedMatrix sz stale reply (cols other) (rows other) h of
             Inl e \<Rightarrow> Inl e
           | Inr (result, h') \<Rightarrow> copyFrom sz result other h')"

definition FreeMatrix :: "MatrixType \<Rightarrow> heap \<Rightarrow> fault + (MatrixType \<times> heap)" where
  "FreeMatrix mat h =
     (case
        (case allocationType mat of
           CPU \<Rightarrow> delete_array (raw mat) h
         | GPU \<Rightarrow> cudaFree (raw mat) h
         | Managed \<Rightarrow> cudaFree (raw mat) h
         | Empty \<Rightarrow> Inr h)
      of
        Inl e \<Rightarrow> Inl e
      | Inr h' \<Rightarrow> Inr (mat\<lparr>raw := Null, allocationType := Empty\<rparr>, h'))"

subsection \<open>Well-formed buffers\<close>

text \<open>
  A buffer of a kind other than \<open>Empty\<close> in a store: \<open>raw\<close> is a live allocation of
  the kind's space holding exactly \<open>size()\<close> elements, that is \<open>sizeof(T) * size()\<close>
  bytes, and (as every allocation a \<open>size_t\<close> request can produce) shorter than
  \<open>2 ^ 64\<close> bytes. An \<open>Empty\<close> buffer has the null pointer. \<open>contents\<close> are the bytes
  the buffer stands for, element after element.
\<close>

definition space_of :: "MatrixAllocationType \<Rightarrow> space option" where
  "space_of k = (case k of Empty \<Rightarrow> None | CPU \<Rightarrow> Some HostMem
                 | GPU \<Rightarrow> Some DeviceMem | Managed \<Rightarrow> Some ManagedMem)"

definition wf_matrix :: "size_t \<Rightarrow> heap \<Rightarrow> MatrixType \<Rightarrow> bool" where
  "wf_matrix sz h m =
     (case space_of (allocationType m) of
        None \<Rightarrow> raw m = Null
      | Some sp \<Rightarrow>
         (case raw m of
            Null \<Rightarrow> False
          | Addr a \<Rightarrow>
             (case block_at h a of
                None \<Rightarrow> False
              | Some b \<Rightarrow>
                  space b = sp \<and> 0 \<le>s size_matrix m
                  \<and> length (cells b) = unat sz * nat (sint (size_matrix m))
                  \<and> length (cells b) < 2 ^ 64)))"

definition contents :: "size_t \<Rightarrow> heap \<Rightarrow> MatrixType \<Rightarrow> byte list option" where
  "contents sz h m =
     (case raw m of
        Null \<Rightarrow> None
      | Addr a \<Rightarrow>
         (case block_at h a of
            None \<Rightarrow> None
          | Some b \<Rightarrow> Some (take (unat (transfer_count sz m)) (cells b))))"

text \<open>
  The invariant the data model states: the kind is \<open>Empty\<close> exactly when the storage
  pointer is null.
\<close>

definition kind_pointer_invariant :: "MatrixType \<Rightarrow> bool" where
  "kind_pointer_invariant m = ((allocationType m = Empty) = (raw m = Null))"

text \<open>
  The side a transfer of \<open>copyFrom\<close> works on for a buffer of a kind: the device for
  \<open>GPU\<close>, the host for \<open>CPU\<close> and \<open>Managed\<close>. This is the dispatch table read column
  by column; \<open>copyFrom_dispatch\<close> below proves that it is the table.
\<close>

definition side_of :: "MatrixAllocationType \<Rightarrow> space \<Rightarrow> bool" where
  "side_of k = (if k = GPU then device_side else host_side)"

section \<open>Auxiliary facts\<close>

subsection \<open>Integers\<close>

lemma uint_scast64: "uint (scast (x :: 32 word) :: 64 word) = sint x mod 2 ^ 64"
  by (simp only: scast_eq uint_word_of_int) simp

lemma unat_scast_nonneg: "0 \<le>s (x :: 32 word) \<Longrightarrow> unat (scast x :: 64 word) = nat (sint x)"
proof -
  assume "0 \<le>s x"
  then have nn: "0 \<le> sint x" by (simp add: word_sle_eq)
  have "sint x < 2 ^ 31" using sint_lt [of x] by simp
  then have "sint x < 2 ^ 64" by simp
  with nn have "sint x mod 2 ^ 64 = sint x" by simp
  then show ?thesis by (simp only: unat_eq_nat_uint uint_scast64)
qed

text \<open>
  A byte count \<open>sizeof(T) * n\<close> that fits \<open>size_t\<close> is computed without wrapping.
\<close>

lemma unat_mult_fits:
  fixes x y :: size_t
  assumes "unat x * unat y < 2 ^ 64"
  shows "unat (x * y) = unat x * unat y"
proof -
  have "unat (x * y) = (unat x * unat y) mod 2 ^ 64"
    by (simp add: unat_word_ariths)
  with assms show ?thesis by simp
qed

lemma byte_count_fits:
  fixes sz :: size_t and s :: cint
  assumes "0 \<le>s s" and "unat sz * nat (sint s) < 2 ^ 64"
  shows "unat (sz * scast s) = unat sz * nat (sint s)"
proof -
  have "unat (scast s :: size_t) = nat (sint s)"
    using assms(1) by (rule unat_scast_nonneg)
  with assms(2) unat_mult_fits [of sz "scast s"] show ?thesis by simp
qed

lemma transfer_count_fits:
  assumes "0 \<le>s size_matrix m" and "unat sz * nat (sint (size_matrix m)) < 2 ^ 64"
  shows "unat (transfer_count sz m) = unat sz * nat (sint (size_matrix m))"
  unfolding transfer_count_def using assms by (rule byte_count_fits)

lemma sint_mult_in_range:
  "- (2 ^ 31) \<le> sint a * sint b \<Longrightarrow> sint a * sint b < 2 ^ 31
     \<Longrightarrow> sint (a * b :: 32 word) = sint a * sint b"
  by (simp add: sint_word_ariths signed_take_bit_int_eq_self)

lemma sint_add_in_range:
  "- (2 ^ 31) \<le> sint a + sint b \<Longrightarrow> sint a + sint b < 2 ^ 31
     \<Longrightarrow> sint (a + b :: 32 word) = sint a + sint b"
  by (simp add: sint_word_ariths signed_take_bit_int_eq_self)



text \<open>
  Extents whose product overflows are another matter: with \<open>sizeof(T) = 12\<close> and
  extents 842443544 and 1824726041 the request \<open>sizeof(T) * rows * cols\<close> of
  \<open>CreateGPU\<close> wraps to 32 bytes, while the count \<open>sizeof(T) * size()\<close> of \<open>copyFrom\<close>
  is 17179869216 bytes.
\<close>

lemma size_t_count_wraps_example:
  "unat ((12 :: size_t) * scast (842443544 :: cint) * scast (1824726041 :: cint)) = 32
   \<and> unat ((12 :: size_t) * scast ((842443544 :: cint) * 1824726041)) = 17179869216"
  by simp

lemma row_major_offset:
  fixes c r ncols nrows :: "32 word"
  assumes "0 \<le>s c" "c <s ncols" "0 \<le>s r" "r <s nrows"
    and "sint nrows * sint ncols < 2 ^ 31"
  shows "sint (r * ncols + c) = sint r * sint ncols + sint c"
    and "0 \<le> sint (r * ncols + c)"
    and "sint (r * ncols + c) < sint (nrows * ncols)"
    and "0 \<le>s nrows * ncols"
proof -
  from assms have b: "0 \<le> sint c" "sint c < sint ncols" "0 \<le> sint r" "sint r < sint nrows"
    by (simp_all add: word_sle_eq word_sless_alt)
  have rc: "sint r * sint ncols + sint c < sint nrows * sint ncols"
  proof -
    have "sint r * sint ncols + sint c < sint r * sint ncols + sint ncols"
      using b by simp
    also have "\<dots> = (sint r + 1) * sint ncols" by (simp add: algebra_simps)
    also have "\<dots> \<le> sint nrows * sint ncols"
      using b by (intro mult_right_mono) simp_all
    finally show ?thesis .
  qed
  have nn: "0 \<le> sint r * sint ncols" using b by simp
  have rn: "sint r * sint ncols < 2 ^ 31"
    using rc assms(5) b by linarith
  have m: "sint (r * ncols) = sint r * sint ncols"
    using nn rn by (intro sint_mult_in_range) simp_all
  have sum_nn: "0 \<le> sint r * sint ncols + sint c" using nn b by simp
  have sum_lt: "sint r * sint ncols + sint c < 2 ^ 31" using rc assms(5) by linarith
  have s: "sint (r * ncols + c) = sint (r * ncols) + sint c"
    using sum_nn sum_lt by (intro sint_add_in_range) (simp_all add: m)
  have whole: "sint (nrows * ncols) = sint nrows * sint ncols"
  proof -
    have "0 \<le> sint nrows * sint ncols" using b by simp
    then show ?thesis using assms(5) by (intro sint_mult_in_range) simp_all
  qed
  show "sint (r * ncols + c) = sint r * sint ncols + sint c" by (simp add: s m)
  show "0 \<le> sint (r * ncols + c)" using nn b by (simp add: s m)
  show "sint (r * ncols + c) < sint (nrows * ncols)" using rc by (simp add: s m whole)
  show "0 \<le>s nrows * ncols" using b by (simp add: word_sle_eq whole)
qed

subsection \<open>The store\<close>

lemma block_at_update:
  "block_at (h[a := v]) a' = (if a' = a \<and> a < length h then v else block_at h a')"
  by (simp add: block_at_def)



lemma block_at_Some_less: "block_at h a = Some b \<Longrightarrow> a < length h"
  by (simp add: block_at_def split: if_splits)

lemma transfer_Inr:
  "transfer dst_ok src_ok dst src n h = Inr h' \<Longrightarrow>
     \<exists>da sa db sb. dst = Addr da \<and> src = Addr sa \<and> block_at h da = Some db
        \<and> block_at h sa = Some sb \<and> dst_ok (space db) \<and> src_ok (space sb)
        \<and> n \<le> length (cells db) \<and> n \<le> length (cells sb)
        \<and> h' = h[da := Some (db\<lparr>cells := take n (cells sb) @ drop n (cells db)\<rparr>)]"
  by (auto simp: transfer_def split: ptr.splits option.splits if_splits)

lemma transfer_ok:
  "\<lbrakk>block_at h da = Some db; block_at h sa = Some sb; dst_ok (space db); src_ok (space sb);
    n \<le> length (cells db); n \<le> length (cells sb)\<rbrakk>
   \<Longrightarrow> transfer dst_ok src_ok (Addr da) (Addr sa) n h
        = Inr (h[da := Some (db\<lparr>cells := take n (cells sb) @ drop n (cells db)\<rparr>)])"
  by (simp add: transfer_def)


subsection \<open>The dispatch of copyFrom\<close>

lemma copyFrom_dispatch:
  "allocationType this \<noteq> Empty \<Longrightarrow> allocationType other \<noteq> Empty \<Longrightarrow>
   copyFrom sz this other h =
     (case transfer (side_of (allocationType this)) (side_of (allocationType other))
             (raw this) (raw other) (unat (transfer_count sz this)) h of
        Inl e \<Rightarrow> Inl e
      | Inr h' \<Rightarrow> Inr (this, h'))"
  by (cases "allocationType this"; cases "allocationType other")
     (simp_all add: copyFrom_def memcpy_def cudaMemcpy_def side_of_def)

lemma copyFrom_Empty:
  "allocationType this = Empty \<or> allocationType other = Empty \<Longrightarrow>
   copyFrom sz this other h = Inr (this, h)"
  by (cases "allocationType this"; cases "allocationType other")
     (simp_all add: copyFrom_def)

lemma copyFrom_Inr_this: "copyFrom sz this other h = Inr (m, h') \<Longrightarrow> m = this"
  by (auto simp: copyFrom_def split: sum.splits)

lemma side_of_space_of: "space_of k = Some sp \<Longrightarrow> side_of k sp"
  by (cases k) (auto simp: space_of_def side_of_def host_side_def device_side_def)

lemma wf_matrix_live:
  assumes "wf_matrix sz h m" "allocationType m \<noteq> Empty"
  shows "\<exists>a b. raw m = Addr a \<and> block_at h a = Some b
           \<and> space_of (allocationType m) = Some (space b)
           \<and> 0 \<le>s size_matrix m
           \<and> length (cells b) = unat sz * nat (sint (size_matrix m))
           \<and> length (cells b) = unat (transfer_count sz m)"
proof -
  from assms obtain sp where sp: "space_of (allocationType m) = Some sp"
    by (cases "allocationType m") (auto simp: space_of_def)
  with assms(1) obtain a b where ab: "raw m = Addr a" "block_at h a = Some b" "space b = sp"
      "0 \<le>s size_matrix m" "length (cells b) = unat sz * nat (sint (size_matrix m))"
      "length (cells b) < 2 ^ 64"
    by (auto simp: wf_matrix_def split: ptr.splits option.splits)
  from ab(4,5,6) have "unat (transfer_count sz m) = length (cells b)"
    by (simp add: transfer_count_fits)
  with ab sp show ?thesis by auto
qed

lemma copyFrom_Inr_effect:
  assumes "allocationType dst \<noteq> Empty" and "allocationType src \<noteq> Empty"
    and "copyFrom sz dst src h = Inr (dst', h')"
  shows "\<exists>da sa db sb. raw dst = Addr da \<and> raw src = Addr sa
           \<and> block_at h da = Some db \<and> block_at h sa = Some sb
           \<and> side_of (allocationType dst) (space db) \<and> side_of (allocationType src) (space sb)
           \<and> unat (transfer_count sz dst) \<le> length (cells db)
           \<and> unat (transfer_count sz dst) \<le> length (cells sb)
           \<and> h' = h[da := Some (db\<lparr>cells := take (unat (transfer_count sz dst)) (cells sb)
                                          @ drop (unat (transfer_count sz dst)) (cells db)\<rparr>)]"
proof -
  from assms(3) obtain h1 where
    "transfer (side_of (allocationType dst)) (side_of (allocationType src))
       (raw dst) (raw src) (unat (transfer_count sz dst)) h = Inr h1" and "h' = h1"
    by (auto simp: copyFrom_dispatch [OF assms(1,2)] split: sum.splits)
  then show ?thesis by (blast dest: transfer_Inr)
qed

subsection \<open>The creation functions\<close>

lemma instantiable_CreateGPU: "instantiable CreateGPU_locals"
  by (simp add: instantiable_def resolve_def CreateGPU_locals_def)

lemma not_instantiable_CreateManaged: "\<not> instantiable CreateManaged_locals"
  by (simp add: instantiable_def resolve_def CreateManaged_locals_def MatrixType_members_def)

lemma CreateGPU_Granted:
  "CreateGPU sz stale (Granted junk) ncols nrows h =
     Inr (\<lparr>raw = Addr (length h), col = ncols, row = nrows, allocationType = GPU\<rparr>,
          h @ [Some \<lparr>space = DeviceMem,
                     cells = map junk [0..<unat (sz * scast nrows * scast ncols)]\<rparr>])"
  by (simp add: CreateGPU_def instantiable_CreateGPU cudaMalloc_def allocate_def)

lemma CreateGPU_Refused:
  "CreateGPU sz stale Refused ncols nrows h =
     Inr (\<lparr>raw = stale, col = ncols, row = nrows, allocationType = GPU\<rparr>, h)"
  by (simp add: CreateGPU_def instantiable_CreateGPU cudaMalloc_def)


lemma CreateCPU_Inr:
  "CreateCPU sz reply ncols nrows h = Inr (m, h') \<Longrightarrow>
     \<exists>junk. reply = Granted junk \<and> 0 \<le>s nrows * ncols
       \<and> m = \<lparr>raw = Addr (length h), col = ncols, row = nrows, allocationType = CPU\<rparr>"
  by (cases reply)
     (auto simp: CreateCPU_def new_array_def allocate_def word_sle_eq word_sless_alt
           split: if_splits)

text \<open>
  Every allocation the creation functions add is shorter than \<open>2 ^ 64\<close> bytes, as
  \<open>wf_matrix\<close> asks of a buffer's storage.
\<close>

lemma CreateCPU_block_fits:
  assumes "CreateCPU sz reply ncols nrows h = Inr (m, h')"
  shows "\<exists>b. h' = h @ [Some b] \<and> space b = HostMem \<and> length (cells b) < 2 ^ 64"
  using assms
  by (cases reply) (auto simp: CreateCPU_def new_array_def allocate_def split: if_splits)

lemma CreateGPU_block_fits:
  assumes "CreateGPU sz stale (Granted junk) ncols nrows h = Inr (m, h')"
  shows "\<exists>b. h' = h @ [Some b] \<and> space b = DeviceMem \<and> length (cells b) < 2 ^ 64"
proof -
  have "unat (sz * scast nrows * scast ncols) < 2 ^ 64"
    using unsigned_less [of "sz * scast nrows * scast ncols", where 'a = nat] by simp
  with assms show ?thesis by (auto simp: CreateGPU_Granted)
qed

subsection \<open>Release\<close>

lemma release_live:
  "block_at h a = Some b \<Longrightarrow> sp_ok (space b) \<Longrightarrow> release sp_ok (Addr a) h = Inr (h[a := None])"
  by (simp add: release_def)

lemma FreeMatrix_Inr_fields:
  "FreeMatrix mat h = Inr (mat', h') \<Longrightarrow> mat' = mat\<lparr>raw := Null, allocationType := Empty\<rparr>"
  by (auto simp: FreeMatrix_def split: sum.splits)

lemma FreeMatrix_live:
  assumes "raw mat = Addr a" and "block_at h a = Some b"
    and "space_of (allocationType mat) = Some (space b)"
  shows "FreeMatrix mat h = Inr (mat\<lparr>raw := Null, allocationType := Empty\<rparr>, h[a := None])"
  using assms
  by (cases "allocationType mat")
     (simp_all add: FreeMatrix_def delete_array_def cudaFree_def release_live space_of_def)

subsection \<open>What the creation functions and the clones return\<close>

lemma CreateGPUMatrix_Inr:
  assumes "CreateGPUMatrix sz stale reply ncols nrows h = Inr (m, h')"
  shows "allocationType m = GPU \<and> col m = ncols \<and> row m = nrows
       \<and> raw m = (case reply of Granted junk \<Rightarrow> Addr (length h) | Refused \<Rightarrow> stale)"
  using assms
  by (cases reply)
     (auto simp: CreateGPUMatrix_def instantiable_CreateGPU CreateGPU_Granted CreateGPU_Refused)

lemma CreateCPUMatrix_from_Inr:
  assumes "CreateCPUMatrix_from sz reply other h = Inr (m, h')"
  shows "(allocationType other = Empty
            \<and> m = \<lparr>raw = Null, col = 0, row = 0, allocationType = Empty\<rparr> \<and> h' = h)
       \<or> (allocationType other \<noteq> Empty
            \<and> m = \<lparr>raw = Addr (length h), col = cols other, row = rows other,
                    allocationType = CPU\<rparr>)"
proof (cases "allocationType other = Empty")
  case True
  with assms show ?thesis by (simp add: CreateCPUMatrix_from_def)
next
  case False
  with assms obtain result h1 where
    c: "CreateCPU sz reply (cols other) (rows other) h = Inr (result, h1)"
    and f: "copyFrom sz result other h1 = Inr (m, h')"
    by (auto simp: CreateCPUMatrix_from_def CreateCPUMatrix_def split: sum.splits)
  from f have "m = result" by (rule copyFrom_Inr_this)
  with CreateCPU_Inr [OF c] False show ?thesis by auto
qed

lemma CreateGPUMatrix_from_Inr:
  assumes "CreateGPUMatrix_from sz stale reply other h = Inr (m, h')"
  shows "(allocationType other = Empty
            \<and> m = \<lparr>raw = Null, col = 0, row = 0, allocationType = Empty\<rparr> \<and> h' = h)
       \<or> (allocationType other \<noteq> Empty \<and> allocationType m = GPU
            \<and> raw m = (case reply of Granted junk \<Rightarrow> Addr (length h) | Refused \<Rightarrow> stale))"
proof (cases "allocationType other = Empty")
  case True
  with assms show ?thesis by (simp add: CreateGPUMatrix_from_def instantiable_CreateGPU)
next
  case False
  with assms obtain result h1 where
    c: "CreateGPUMatrix sz stale reply (cols other) (rows other) h = Inr (result, h1)"
    and f: "copyFrom sz result other h1 = Inr (m, h')"
    by (auto simp: CreateGPUMatrix_from_def instantiable_CreateGPU split: sum.splits)
  from f have "m = result" by (rule copyFrom_Inr_this)
  with CreateGPUMatrix_Inr [OF c] False show ?thesis by simp
qed

section \<open>The claims\<close>

text \<open>
  C1. \<open>FreeMatrix\<close> on a well-formed buffer of a kind other than \<open>Empty\<close> returns,
  releases the storage, and leaves the buffer with kind \<open>Empty\<close> and the null pointer.
  It assigns to \<open>raw\<close> and \<open>allocationType\<close> only: \<open>rows()\<close>, \<open>cols()\<close>, \<open>size()\<close> and
  the distance from \<open>begin()\<close> to \<open>end()\<close> are what they were before the call, so they
  do not report a zero extent unless the buffer had one.
\<close>

theorem FreeMatrix_resets_pointer_and_kind:
  assumes "wf_matrix sz h b" and "allocationType b \<noteq> Empty"
  shows "\<exists>b' h'. FreeMatrix b h = Inr (b', h')
           \<and> allocationType b' = Empty \<and> raw b' = Null
           \<and> rows b' = rows b \<and> cols b' = cols b
           \<and> size_matrix b' = size_matrix b
           \<and> end_minus_begin b' = end_minus_begin b
           \<and> (\<forall>a. raw b = Addr a \<longrightarrow> block_at h' a = None)
           \<and> wf_matrix sz h' b'"
proof -
  from wf_matrix_live [OF assms] obtain a blk where
    l: "raw b = Addr a" "block_at h a = Some blk"
       "space_of (allocationType b) = Some (space blk)"
    by blast
  have less: "a < length h" using l(2) by (rule block_at_Some_less)
  let ?b' = "b\<lparr>raw := Null, allocationType := Empty\<rparr>"
  have run: "FreeMatrix b h = Inr (?b', h[a := None])"
    using l by (rule FreeMatrix_live)
  moreover have "block_at (h[a := None]) a = None"
    using less by (simp add: block_at_update)
  moreover have "wf_matrix sz (h[a := None]) ?b'"
    by (simp add: wf_matrix_def space_of_def)
  ultimately show ?thesis
    using l(1)
    by (simp add: rows_def cols_def size_matrix_def end_minus_begin_def)
qed

theorem FreeMatrix_resets_pointer_and_kind_witness:
  "wf_matrix 2 [Some \<lparr>space = HostMem, cells = [0, 1, 2, 3, 4, 5, 6, 7, 8, 9, 10, 11]\<rparr>]
     \<lparr>raw = Addr 0, col = 3, row = 2, allocationType = CPU\<rparr>
   \<and> allocationType \<lparr>raw = Addr 0, col = 3, row = 2, allocationType = CPU\<rparr> \<noteq> Empty
   \<and> (\<exists>b' h'. FreeMatrix \<lparr>raw = Addr 0, col = 3, row = 2, allocationType = CPU\<rparr>
                  [Some \<lparr>space = HostMem, cells = [0, 1, 2, 3, 4, 5, 6, 7, 8, 9, 10, 11]\<rparr>]
                = Inr (b', h')
              \<and> allocationType b' = Empty \<and> raw b' = Null
              \<and> size_matrix b' = 6 \<and> end_minus_begin b' = 6)"
proof -
  let ?h = "[Some \<lparr>space = HostMem, cells = [0, 1, 2, 3, 4, 5, 6, 7, 8, 9, 10, 11]\<rparr>]"
  let ?b = "\<lparr>raw = Addr 0, col = 3, row = 2, allocationType = CPU\<rparr>"
  have 1: "wf_matrix 2 ?h ?b"
    by (simp add: wf_matrix_def space_of_def block_at_def size_matrix_def word_sle_eq)
  have 2: "allocationType ?b \<noteq> Empty" by simp
  have 3: "size_matrix ?b = 6" "end_minus_begin ?b = 6"
    by (simp_all add: size_matrix_def end_minus_begin_def)
  from FreeMatrix_resets_pointer_and_kind [OF 1 2] 1 2 show ?thesis
    by (simp only: 3) blast
qed

theorem FreeMatrix_keeps_extents_counterexample:
  "wf_matrix 2 [Some \<lparr>space = HostMem, cells = [0, 1, 2, 3, 4, 5, 6, 7, 8, 9, 10, 11]\<rparr>]
     \<lparr>raw = Addr 0, col = 3, row = 2, allocationType = CPU\<rparr>
   \<and> allocationType \<lparr>raw = Addr 0, col = 3, row = 2, allocationType = CPU\<rparr> \<noteq> Empty
   \<and> FreeMatrix \<lparr>raw = Addr 0, col = 3, row = 2, allocationType = CPU\<rparr>
        [Some \<lparr>space = HostMem, cells = [0, 1, 2, 3, 4, 5, 6, 7, 8, 9, 10, 11]\<rparr>]
      = Inr (\<lparr>raw = Null, col = 3, row = 2, allocationType = Empty\<rparr>, [None])
   \<and> size_matrix \<lparr>raw = Null, col = 3, row = 2, allocationType = Empty\<rparr> = 6
   \<and> size_matrix \<lparr>raw = Null, col = 3, row = 2, allocationType = Empty\<rparr> \<noteq> 0
   \<and> end_minus_begin \<lparr>raw = Null, col = 3, row = 2, allocationType = Empty\<rparr> \<noteq> 0"
  by (simp add: FreeMatrix_def delete_array_def release_def block_at_def size_matrix_def
        end_minus_begin_def wf_matrix_def space_of_def word_sle_eq)

text \<open>
  C2. For the nine pairs of kinds other than \<open>Empty\<close>: between two well-formed buffers
  of one store whose \<open>size()\<close> agree, \<open>copyFrom\<close> returns, and afterwards the
  destination holds the bytes the source held, element after element. The source is
  left holding them too (also when both buffers share their storage), and the
  destination is still well-formed.
\<close>

theorem copyFrom_reproduces_source:
  assumes "wf_matrix sz h dst" and "wf_matrix sz h src"
    and "allocationType dst \<noteq> Empty" and "allocationType src \<noteq> Empty"
    and "size_matrix dst = size_matrix src"
  shows "\<exists>h'. copyFrom sz dst src h = Inr (dst, h')
           \<and> contents sz h' dst = contents sz h src
           \<and> contents sz h' src = contents sz h src
           \<and> wf_matrix sz h' dst"
proof -
  from wf_matrix_live [OF assms(1,3)] obtain da db where
    d: "raw dst = Addr da" "block_at h da = Some db"
       "space_of (allocationType dst) = Some (space db)"
       "0 \<le>s size_matrix dst"
       "length (cells db) = unat sz * nat (sint (size_matrix dst))"
       "length (cells db) = unat (transfer_count sz dst)"
    by blast
  from wf_matrix_live [OF assms(2,4)] obtain sa sb where
    s: "raw src = Addr sa" "block_at h sa = Some sb"
       "space_of (allocationType src) = Some (space sb)"
       "length (cells sb) = unat (transfer_count sz src)"
    by blast
  define n where "n = unat (transfer_count sz dst)"
  have ns: "unat (transfer_count sz src) = n"
    using assms(5) by (simp add: n_def transfer_count_def)
  define h' where "h' = h[da := Some (db\<lparr>cells := take n (cells sb) @ drop n (cells db)\<rparr>)]"
  have da_less: "da < length h" using d(2) by (rule block_at_Some_less)
  have "transfer (side_of (allocationType dst)) (side_of (allocationType src))
          (Addr da) (Addr sa) n h = Inr h'"
    unfolding h'_def
    by (rule transfer_ok)
       (simp_all add: d(2,3,6) s ns side_of_space_of n_def [symmetric])
  then have run: "copyFrom sz dst src h = Inr (dst, h')"
    by (simp add: copyFrom_dispatch [OF assms(3,4)] d(1) s(1) n_def)
  have new: "block_at h' da = Some (db\<lparr>cells := cells sb\<rparr>)"
    using da_less by (simp add: h'_def block_at_update d(6) s(4) ns n_def [symmetric])
  have c_src: "contents sz h src = Some (cells sb)"
    by (simp add: contents_def s ns)
  have c_dst: "contents sz h' dst = Some (cells sb)"
    by (simp add: contents_def d(1) new n_def [symmetric] s(4) ns)
  have c_src': "contents sz h' src = Some (cells sb)"
  proof (cases "sa = da")
    case True
    then show ?thesis by (simp add: contents_def s(1) new ns s(4))
  next
    case False
    then have "block_at h' sa = Some sb" by (simp add: h'_def block_at_update s(2))
    then show ?thesis by (simp add: contents_def s(1) ns s(4))
  qed
  have len: "length (cells sb) = length (cells db)"
    by (simp add: s(4) ns d(6) n_def)
  have wf: "wf_matrix sz h' dst"
    using assms(1) d(1,2) by (simp add: wf_matrix_def new len split: option.splits)
  from run c_src c_dst c_src' wf show ?thesis by simp
qed

theorem copyFrom_reproduces_source_witness:
  "wf_matrix 2 [Some \<lparr>space = DeviceMem, cells = [0, 0, 0, 0, 0, 0]\<rparr>,
                Some \<lparr>space = ManagedMem, cells = [7, 8, 9, 10, 11, 12]\<rparr>]
             \<lparr>raw = Addr 0, col = 3, row = 1, allocationType = GPU\<rparr>
   \<and> wf_matrix 2 [Some \<lparr>space = DeviceMem, cells = [0, 0, 0, 0, 0, 0]\<rparr>,
                  Some \<lparr>space = ManagedMem, cells = [7, 8, 9, 10, 11, 12]\<rparr>]
               \<lparr>raw = Addr 1, col = 1, row = 3, allocationType = Managed\<rparr>
   \<and> allocationType \<lparr>raw = Addr 0, col = 3, row = 1, allocationType = GPU\<rparr> \<noteq> Empty
   \<and> allocationType \<lparr>raw = Addr 1, col = 1, row = 3, allocationType = Managed\<rparr> \<noteq> Empty
   \<and> size_matrix \<lparr>raw = Addr 0, col = 3, row = 1, allocationType = GPU\<rparr>
       = size_matrix \<lparr>raw = Addr 1, col = 1, row = 3, allocationType = Managed\<rparr>
   \<and> (\<exists>h'. copyFrom 2 \<lparr>raw = Addr 0, col = 3, row = 1, allocationType = GPU\<rparr>
               \<lparr>raw = Addr 1, col = 1, row = 3, allocationType = Managed\<rparr>
               [Some \<lparr>space = DeviceMem, cells = [0, 0, 0, 0, 0, 0]\<rparr>,
                Some \<lparr>space = ManagedMem, cells = [7, 8, 9, 10, 11, 12]\<rparr>]
             = Inr (\<lparr>raw = Addr 0, col = 3, row = 1, allocationType = GPU\<rparr>, h')
           \<and> contents 2 h' \<lparr>raw = Addr 0, col = 3, row = 1, allocationType = GPU\<rparr>
               = Some [7, 8, 9, 10, 11, 12])"
proof -
  let ?h = "[Some \<lparr>space = DeviceMem, cells = [0, 0, 0, 0, 0, 0]\<rparr>,
             Some \<lparr>space = ManagedMem, cells = [7, 8, 9, 10, 11, 12]\<rparr>]"
  let ?d = "\<lparr>raw = Addr 0, col = 3, row = 1, allocationType = GPU\<rparr>"
  let ?s = "\<lparr>raw = Addr 1, col = 1, row = 3, allocationType = Managed\<rparr>"
  have 1: "wf_matrix 2 ?h ?d"
    by (simp add: wf_matrix_def space_of_def block_at_def size_matrix_def word_sle_eq)
  have 2: "wf_matrix 2 ?h ?s"
    by (simp add: wf_matrix_def space_of_def block_at_def size_matrix_def word_sle_eq)
  have 3: "allocationType ?d \<noteq> Empty" by simp
  have 4: "allocationType ?s \<noteq> Empty" by simp
  have 5: "size_matrix ?d = size_matrix ?s" by (simp add: size_matrix_def)
  have 6: "contents 2 ?h ?s = Some [7, 8, 9, 10, 11, 12]"
    by (simp add: contents_def block_at_def transfer_count_def size_matrix_def)
  from copyFrom_reproduces_source [OF 1 2 3 4 5] 1 2 3 4 5 show ?thesis
    by (simp only: 6) blast
qed

text \<open>
  C3. \<open>CreateManagedMatrix (cols, rows)\<close> is claimed to return a buffer of kind
  \<open>Managed\<close> whose \<open>size()\<close> is \<open>cols * rows\<close>. The body of \<open>CreateManaged\<close> names a
  \<open>data\<close> it never declares, which the class scope resolves to the member functions
  \<open>data()\<close>: the function yields no buffer for any extents, any store and any answer of
  the allocator. Its sibling \<open>CreateGPU\<close> declares \<open>T* data;\<close> first, and with the same
  two statements returns a buffer of its kind whose \<open>size()\<close> is \<open>cols * rows\<close>.
\<close>

theorem CreateManagedMatrix_yields_no_buffer:
  "CreateManagedMatrix sz stale reply ncols nrows h = Inl IllFormed
   \<and> CreateGPUMatrix sz stale (Granted junk) ncols nrows h
       = Inr (\<lparr>raw = Addr (length h), col = ncols, row = nrows, allocationType = GPU\<rparr>,
              h @ [Some \<lparr>space = DeviceMem,
                         cells = map junk [0..<unat (sz * scast nrows * scast ncols)]\<rparr>])
   \<and> size_matrix \<lparr>raw = Addr (length h), col = ncols, row = nrows, allocationType = GPU\<rparr>
       = ncols * nrows"
  by (simp add: CreateManagedMatrix_def not_instantiable_CreateManaged CreateGPUMatrix_def
        instantiable_CreateGPU CreateGPU_Granted size_matrix_def)



text \<open>
  C5. For an \<open>Empty\<close> argument, \<open>CreateCPUMatrix\<close> and \<open>CreateGPUMatrix\<close> return the
  \<open>Empty\<close> buffer with the null pointer and zero extents; the store is returned as it
  was and the allocator's answer is not looked at, so nothing is allocated. The third
  clone, \<open>CreateManagedMatrix\<close>, has the same guard but cannot be instantiated, because
  its body calls the ill-formed \<open>CreateManaged\<close> (see C3): it returns nothing for any
  argument, the \<open>Empty\<close> ones included.
\<close>

theorem clones_of_Empty:
  assumes "allocationType b = Empty"
  shows "CreateCPUMatrix_from sz reply b h
           = Inr (\<lparr>raw = Null, col = 0, row = 0, allocationType = Empty\<rparr>, h)
       \<and> CreateGPUMatrix_from sz stale reply b h
           = Inr (\<lparr>raw = Null, col = 0, row = 0, allocationType = Empty\<rparr>, h)
       \<and> CreateManagedMatrix_from sz stale reply b h = Inl IllFormed"
  using assms
  by (simp add: CreateCPUMatrix_from_def CreateGPUMatrix_from_def CreateManagedMatrix_from_def
        instantiable_CreateGPU not_instantiable_CreateManaged)

theorem clones_of_Empty_witness:
  "allocationType \<lparr>raw = Null, col = 4, row = 5, allocationType = Empty\<rparr> = Empty
   \<and> CreateCPUMatrix_from 2 (Granted (\<lambda>i. 7))
        \<lparr>raw = Null, col = 4, row = 5, allocationType = Empty\<rparr>
        [Some \<lparr>space = HostMem, cells = [1, 2]\<rparr>]
      = Inr (\<lparr>raw = Null, col = 0, row = 0, allocationType = Empty\<rparr>,
             [Some \<lparr>space = HostMem, cells = [1, 2]\<rparr>])
   \<and> CreateGPUMatrix_from 2 Null (Granted (\<lambda>i. 7))
        \<lparr>raw = Null, col = 4, row = 5, allocationType = Empty\<rparr>
        [Some \<lparr>space = HostMem, cells = [1, 2]\<rparr>]
      = Inr (\<lparr>raw = Null, col = 0, row = 0, allocationType = Empty\<rparr>,
             [Some \<lparr>space = HostMem, cells = [1, 2]\<rparr>])
   \<and> CreateManagedMatrix_from 2 Null (Granted (\<lambda>i. 7))
        \<lparr>raw = Null, col = 4, row = 5, allocationType = Empty\<rparr>
        [Some \<lparr>space = HostMem, cells = [1, 2]\<rparr>]
      = Inl IllFormed"
proof -
  have e: "allocationType \<lparr>raw = Null, col = 4, row = 5, allocationType = Empty\<rparr> = Empty"
    by simp
  from clones_of_Empty [OF e] show ?thesis by simp
qed

text \<open>
  C6. When the destination or the source is \<open>Empty\<close>, \<open>copyFrom\<close> returns the
  destination object and the store exactly as they were: no transfer primitive runs.
\<close>

theorem copyFrom_Empty_is_noop:
  assumes "allocationType dst = Empty \<or> allocationType src = Empty"
  shows "copyFrom sz dst src h = Inr (dst, h)"
  using assms by (rule copyFrom_Empty)

theorem copyFrom_Empty_is_noop_witness:
  "(allocationType \<lparr>raw = Addr 0, col = 2, row = 1, allocationType = CPU\<rparr> = Empty
      \<or> allocationType \<lparr>raw = Null, col = 2, row = 1, allocationType = Empty\<rparr> = Empty)
   \<and> copyFrom 2 \<lparr>raw = Addr 0, col = 2, row = 1, allocationType = CPU\<rparr>
        \<lparr>raw = Null, col = 2, row = 1, allocationType = Empty\<rparr>
        [Some \<lparr>space = HostMem, cells = [1, 2, 3, 4]\<rparr>]
      = Inr (\<lparr>raw = Addr 0, col = 2, row = 1, allocationType = CPU\<rparr>,
             [Some \<lparr>space = HostMem, cells = [1, 2, 3, 4]\<rparr>])"
proof -
  have e: "allocationType \<lparr>raw = Addr 0, col = 2, row = 1, allocationType = CPU\<rparr> = Empty
      \<or> allocationType \<lparr>raw = Null, col = 2, row = 1, allocationType = Empty\<rparr> = Empty"
    by simp
  from copyFrom_Empty_is_noop [OF e] show ?thesis by simp
qed

text \<open>
  C7. Whenever \<open>copyFrom\<close> returns, the destination object has the kind, the rows, the
  columns and the storage pointer it had. In the store, no allocation appears or
  disappears, every allocation keeps its space and its length, and every allocation
  other than the one the destination points to is untouched: only bytes of the
  destination's storage can differ.
\<close>

theorem copyFrom_changes_elements_only:
  assumes "copyFrom sz dst src h = Inr (dst', h')"
  shows "allocationType dst' = allocationType dst \<and> rows dst' = rows dst
       \<and> cols dst' = cols dst \<and> raw dst' = raw dst
       \<and> length h' = length h
       \<and> (\<forall>a. raw dst \<noteq> Addr a \<longrightarrow> block_at h' a = block_at h a)
       \<and> (\<forall>a. block_at h a = None \<longrightarrow> block_at h' a = None)
       \<and> (\<forall>a b. block_at h a = Some b \<longrightarrow>
            (\<exists>b'. block_at h' a = Some b' \<and> space b' = space b
                   \<and> length (cells b') = length (cells b)))"
proof -
  have same: "dst' = dst" using assms by (rule copyFrom_Inr_this)
  show ?thesis
  proof (cases "allocationType dst = Empty \<or> allocationType src = Empty")
    case True
    with assms have "h' = h" by (simp add: copyFrom_Empty)
    with same show ?thesis by simp
  next
    case False
    then have ne: "allocationType dst \<noteq> Empty" "allocationType src \<noteq> Empty" by simp_all
    from copyFrom_Inr_effect [OF ne assms] obtain da sa db sb where
      e: "raw dst = Addr da" "block_at h da = Some db" "block_at h sa = Some sb"
         "unat (transfer_count sz dst) \<le> length (cells db)"
         "unat (transfer_count sz dst) \<le> length (cells sb)"
         "h' = h[da := Some (db\<lparr>cells := take (unat (transfer_count sz dst)) (cells sb)
                                          @ drop (unat (transfer_count sz dst)) (cells db)\<rparr>)]"
      by blast
    have da_less: "da < length h" using e(2) by (rule block_at_Some_less)
    show ?thesis
      using same e da_less by (auto simp: block_at_update)
  qed
qed

theorem copyFrom_changes_elements_only_witness:
  "copyFrom 2 \<lparr>raw = Addr 0, col = 3, row = 1, allocationType = GPU\<rparr>
       \<lparr>raw = Addr 1, col = 1, row = 3, allocationType = Managed\<rparr>
       [Some \<lparr>space = DeviceMem, cells = [0, 0, 0, 0, 0, 0]\<rparr>,
        Some \<lparr>space = ManagedMem, cells = [7, 8, 9, 10, 11, 12]\<rparr>]
     = Inr (\<lparr>raw = Addr 0, col = 3, row = 1, allocationType = GPU\<rparr>,
            [Some \<lparr>space = DeviceMem, cells = [7, 8, 9, 10, 11, 12]\<rparr>,
             Some \<lparr>space = ManagedMem, cells = [7, 8, 9, 10, 11, 12]\<rparr>])
   \<and> length [Some \<lparr>space = DeviceMem, cells = [7, 8, 9, 10, 11, 12]\<rparr>,
              Some \<lparr>space = ManagedMem, cells = [7, 8, 9, 10, 11, 12]\<rparr>]
       = length [Some \<lparr>space = DeviceMem, cells = [0, 0, 0, 0, 0, 0]\<rparr>,
                 Some \<lparr>space = ManagedMem, cells = [7, 8, 9, 10, 11, 12]\<rparr>]
   \<and> block_at [Some \<lparr>space = DeviceMem, cells = [7, 8, 9, 10, 11, 12]\<rparr>,
                Some \<lparr>space = ManagedMem, cells = [7, 8, 9, 10, 11, 12]\<rparr>] 1
       = block_at [Some \<lparr>space = DeviceMem, cells = [0, 0, 0, 0, 0, 0]\<rparr>,
                   Some \<lparr>space = ManagedMem, cells = [7, 8, 9, 10, 11, 12]\<rparr>] 1"
proof -
  let ?h = "[Some \<lparr>space = DeviceMem, cells = [0, 0, 0, 0, 0, 0]\<rparr>,
             Some \<lparr>space = ManagedMem, cells = [7, 8, 9, 10, 11, 12]\<rparr>]"
  let ?h' = "[Some \<lparr>space = DeviceMem, cells = [7, 8, 9, 10, 11, 12]\<rparr>,
              Some \<lparr>space = ManagedMem, cells = [7, 8, 9, 10, 11, 12]\<rparr>]"
  let ?d = "\<lparr>raw = Addr 0, col = 3, row = 1, allocationType = GPU\<rparr>"
  let ?s = "\<lparr>raw = Addr 1, col = 1, row = 3, allocationType = Managed\<rparr>"
  have run: "copyFrom 2 ?d ?s ?h = Inr (?d, ?h')"
    by (simp add: copyFrom_def cudaMemcpy_def transfer_def block_at_def transfer_count_def
          size_matrix_def device_side_def host_side_def)
  from copyFrom_changes_elements_only [OF run] run show ?thesis
    by simp
qed

text \<open>
  C8. The kind is \<open>Empty\<close> exactly when the storage pointer is null
  \<^item> in every buffer \<open>CreateCPUMatrix\<close> returns, from extents or as a clone (a refused
    allocation returns none: \<open>new\<close> throws);
  \<^item> in a buffer \<open>CreateGPUMatrix\<close> returns from extents exactly when it is not the
    case that the allocation was refused and the pointer variable, which the allocator
    then never wrote, holds the null pointer; and in that case also in the buffer it
    returns as a clone;
  \<^item> in the destination after \<open>copyFrom\<close>, if it held before;
  \<^item> in every buffer after \<open>FreeMatrix\<close>, whether it held before or not.
  \<open>CreateGPU\<close> does not look at the allocator's status, so after a refused request it
  returns kind \<open>GPU\<close> with a pointer that may be null.
\<close>

theorem kind_pointer_invariant_unless_refused:
  "(CreateCPUMatrix sz reply ncols nrows h = Inr (m1, h1) \<longrightarrow> kind_pointer_invariant m1)
   \<and> (CreateGPUMatrix sz stale reply ncols nrows h = Inr (m2, h2)
        \<longrightarrow> kind_pointer_invariant m2 = (\<not> (reply = Refused \<and> stale = Null)))
   \<and> (CreateCPUMatrix_from sz reply other h = Inr (m4, h4) \<longrightarrow> kind_pointer_invariant m4)
   \<and> (CreateGPUMatrix_from sz stale reply other h = Inr (m5, h5)
          \<and> \<not> (reply = Refused \<and> stale = Null)
        \<longrightarrow> kind_pointer_invariant m5)
   \<and> (kind_pointer_invariant dst \<and> copyFrom sz dst src h = Inr (dst', h7)
        \<longrightarrow> kind_pointer_invariant dst')
   \<and> (FreeMatrix mat h = Inr (mat', h8) \<longrightarrow> kind_pointer_invariant mat')"
proof (intro conjI impI)
  assume "CreateCPUMatrix sz reply ncols nrows h = Inr (m1, h1)"
  then show "kind_pointer_invariant m1"
    by (auto simp: CreateCPUMatrix_def kind_pointer_invariant_def dest: CreateCPU_Inr)
next
  assume "CreateGPUMatrix sz stale reply ncols nrows h = Inr (m2, h2)"
  from CreateGPUMatrix_Inr [OF this]
  show "kind_pointer_invariant m2 = (\<not> (reply = Refused \<and> stale = Null))"
    by (cases reply) (auto simp: kind_pointer_invariant_def)
next
  assume "CreateCPUMatrix_from sz reply other h = Inr (m4, h4)"
  from CreateCPUMatrix_from_Inr [OF this] show "kind_pointer_invariant m4"
    by (auto simp: kind_pointer_invariant_def)
next
  assume a: "CreateGPUMatrix_from sz stale reply other h = Inr (m5, h5)
          \<and> \<not> (reply = Refused \<and> stale = Null)"
  then have "CreateGPUMatrix_from sz stale reply other h = Inr (m5, h5)" by simp
  from CreateGPUMatrix_from_Inr [OF this] a show "kind_pointer_invariant m5"
    by (cases reply) (auto simp: kind_pointer_invariant_def)
next
  assume "kind_pointer_invariant dst \<and> copyFrom sz dst src h = Inr (dst', h7)"
  then show "kind_pointer_invariant dst'"
    by (auto dest: copyFrom_Inr_this)
next
  assume "FreeMatrix mat h = Inr (mat', h8)"
  from FreeMatrix_Inr_fields [OF this] show "kind_pointer_invariant mat'"
    by (simp add: kind_pointer_invariant_def)
qed

theorem kind_pointer_invariant_unless_refused_witness:
  "CreateCPUMatrix 2 (Granted (\<lambda>i. 0)) 2 1 []
     = Inr (\<lparr>raw = Addr 0, col = 2, row = 1, allocationType = CPU\<rparr>,
            [Some \<lparr>space = HostMem, cells = [0, 0, 0, 0]\<rparr>])
   \<and> kind_pointer_invariant \<lparr>raw = Addr 0, col = 2, row = 1, allocationType = CPU\<rparr>
   \<and> CreateGPUMatrix 2 Null (Granted (\<lambda>i. 0)) 2 1 []
     = Inr (\<lparr>raw = Addr 0, col = 2, row = 1, allocationType = GPU\<rparr>,
            [Some \<lparr>space = DeviceMem, cells = [0, 0, 0, 0]\<rparr>])
   \<and> kind_pointer_invariant \<lparr>raw = Addr 0, col = 2, row = 1, allocationType = GPU\<rparr>
   \<and> CreateGPUMatrix 2 (Addr 5) Refused 2 1 []
     = Inr (\<lparr>raw = Addr 5, col = 2, row = 1, allocationType = GPU\<rparr>, [])
   \<and> kind_pointer_invariant \<lparr>raw = Addr 5, col = 2, row = 1, allocationType = GPU\<rparr>
   \<and> CreateCPUMatrix_from 2 (Granted (\<lambda>i. 0))
        \<lparr>raw = Addr 0, col = 2, row = 1, allocationType = CPU\<rparr>
        [Some \<lparr>space = HostMem, cells = [1, 2, 3, 4]\<rparr>]
     = Inr (\<lparr>raw = Addr 1, col = 2, row = 1, allocationType = CPU\<rparr>,
            [Some \<lparr>space = HostMem, cells = [1, 2, 3, 4]\<rparr>,
             Some \<lparr>space = HostMem, cells = [1, 2, 3, 4]\<rparr>])
   \<and> kind_pointer_invariant \<lparr>raw = Addr 1, col = 2, row = 1, allocationType = CPU\<rparr>
   \<and> CreateGPUMatrix_from 2 Null (Granted (\<lambda>i. 0))
        \<lparr>raw = Addr 0, col = 2, row = 1, allocationType = CPU\<rparr>
        [Some \<lparr>space = HostMem, cells = [1, 2, 3, 4]\<rparr>]
     = Inr (\<lparr>raw = Addr 1, col = 2, row = 1, allocationType = GPU\<rparr>,
            [Some \<lparr>space = HostMem, cells = [1, 2, 3, 4]\<rparr>,
             Some \<lparr>space = DeviceMem, cells = [1, 2, 3, 4]\<rparr>])
   \<and> kind_pointer_invariant \<lparr>raw = Addr 1, col = 2, row = 1, allocationType = GPU\<rparr>
   \<and> copyFrom 2 \<lparr>raw = Addr 0, col = 2, row = 1, allocationType = CPU\<rparr>
        \<lparr>raw = Addr 0, col = 2, row = 1, allocationType = CPU\<rparr>
        [Some \<lparr>space = HostMem, cells = [1, 2, 3, 4]\<rparr>]
     = Inr (\<lparr>raw = Addr 0, col = 2, row = 1, allocationType = CPU\<rparr>,
            [Some \<lparr>space = HostMem, cells = [1, 2, 3, 4]\<rparr>])
   \<and> FreeMatrix \<lparr>raw = Addr 0, col = 2, row = 1, allocationType = CPU\<rparr>
        [Some \<lparr>space = HostMem, cells = [1, 2, 3, 4]\<rparr>]
     = Inr (\<lparr>raw = Null, col = 2, row = 1, allocationType = Empty\<rparr>, [None])
   \<and> kind_pointer_invariant \<lparr>raw = Null, col = 2, row = 1, allocationType = Empty\<rparr>"
proof -
  let ?g = "Granted (\<lambda>i. 0)"
  let ?B = "\<lparr>raw = Addr 0, col = 2, row = 1, allocationType = CPU\<rparr>"
  let ?HB = "[Some \<lparr>space = HostMem, cells = [1, 2, 3, 4]\<rparr>]"
  have r1: "CreateCPUMatrix 2 ?g 2 1 []
     = Inr (\<lparr>raw = Addr 0, col = 2, row = 1, allocationType = CPU\<rparr>,
            [Some \<lparr>space = HostMem, cells = [0, 0, 0, 0]\<rparr>])"
    by (simp add: CreateCPUMatrix_def CreateCPU_def new_array_def allocate_def word_sless_alt
          upt_rec)
  have r2: "CreateGPUMatrix 2 Null ?g 2 1 []
     = Inr (\<lparr>raw = Addr 0, col = 2, row = 1, allocationType = GPU\<rparr>,
            [Some \<lparr>space = DeviceMem, cells = [0, 0, 0, 0]\<rparr>])"
    by (simp add: CreateGPUMatrix_def instantiable_CreateGPU CreateGPU_Granted upt_rec)
  have r3: "CreateGPUMatrix 2 (Addr 5) Refused 2 1 []
     = Inr (\<lparr>raw = Addr 5, col = 2, row = 1, allocationType = GPU\<rparr>, [])"
    by (simp add: CreateGPUMatrix_def instantiable_CreateGPU CreateGPU_Refused)
  have r4: "CreateCPUMatrix_from 2 ?g ?B ?HB
     = Inr (\<lparr>raw = Addr 1, col = 2, row = 1, allocationType = CPU\<rparr>,
            [Some \<lparr>space = HostMem, cells = [1, 2, 3, 4]\<rparr>,
             Some \<lparr>space = HostMem, cells = [1, 2, 3, 4]\<rparr>])"
    by (simp add: CreateCPUMatrix_from_def CreateCPUMatrix_def CreateCPU_def new_array_def
          allocate_def word_sless_alt upt_rec cols_def rows_def copyFrom_def memcpy_def
          transfer_def block_at_def transfer_count_def size_matrix_def host_side_def)
  have r5: "CreateGPUMatrix_from 2 Null ?g ?B ?HB
     = Inr (\<lparr>raw = Addr 1, col = 2, row = 1, allocationType = GPU\<rparr>,
            [Some \<lparr>space = HostMem, cells = [1, 2, 3, 4]\<rparr>,
             Some \<lparr>space = DeviceMem, cells = [1, 2, 3, 4]\<rparr>])"
    by (simp add: CreateGPUMatrix_from_def CreateGPUMatrix_def instantiable_CreateGPU
          CreateGPU_Granted upt_rec cols_def rows_def copyFrom_def cudaMemcpy_def
          transfer_def block_at_def transfer_count_def size_matrix_def host_side_def
          device_side_def)
  have r7: "copyFrom 2 ?B ?B ?HB = Inr (?B, ?HB)"
    by (simp add: copyFrom_def memcpy_def
          transfer_def block_at_def transfer_count_def size_matrix_def host_side_def)
  have r8: "FreeMatrix ?B ?HB
     = Inr (\<lparr>raw = Null, col = 2, row = 1, allocationType = Empty\<rparr>, [None])"
    by (simp add: FreeMatrix_def delete_array_def release_def block_at_def)
  note tA = kind_pointer_invariant_unless_refused
    [where sz = 2 and reply = ?g and stale = Null and ncols = 2 and nrows = 1 and h = "[]"]
  note tR = kind_pointer_invariant_unless_refused
    [where sz = 2 and reply = Refused and stale = "Addr 5" and ncols = 2 and nrows = 1
       and h = "[]"]
  note tB = kind_pointer_invariant_unless_refused
    [where sz = 2 and reply = ?g and stale = Null and h = ?HB and other = ?B and dst = ?B
       and src = ?B and mat = ?B]
  from tA r1 have k1: "kind_pointer_invariant \<lparr>raw = Addr 0, col = 2, row = 1, allocationType = CPU\<rparr>"
    by blast
  from tA r2 have k2: "kind_pointer_invariant \<lparr>raw = Addr 0, col = 2, row = 1, allocationType = GPU\<rparr>"
    by blast
  from tR r3 have k3: "kind_pointer_invariant \<lparr>raw = Addr 5, col = 2, row = 1, allocationType = GPU\<rparr>"
    by blast
  from tB r4 have k4: "kind_pointer_invariant \<lparr>raw = Addr 1, col = 2, row = 1, allocationType = CPU\<rparr>"
    by blast
  from tB r5 have k5: "kind_pointer_invariant \<lparr>raw = Addr 1, col = 2, row = 1, allocationType = GPU\<rparr>"
    by blast
  from tB r8 have k8: "kind_pointer_invariant \<lparr>raw = Null, col = 2, row = 1, allocationType = Empty\<rparr>"
    by blast
  from r1 k1 r2 k2 r3 k3 r4 k4 r5 k5 r7 r8 k8 show ?thesis
    by (intro conjI)
qed

theorem CreateGPUMatrix_refused_counterexample:
  "CreateGPUMatrix 2 Null Refused 3 2 []
     = Inr (\<lparr>raw = Null, col = 3, row = 2, allocationType = GPU\<rparr>, [])
   \<and> allocationType \<lparr>raw = Null, col = 3, row = 2, allocationType = GPU\<rparr> \<noteq> Empty
   \<and> raw \<lparr>raw = Null, col = 3, row = 2, allocationType = GPU\<rparr> = Null
   \<and> \<not> kind_pointer_invariant \<lparr>raw = Null, col = 3, row = 2, allocationType = GPU\<rparr>"
  by (simp add: CreateGPUMatrix_def instantiable_CreateGPU CreateGPU_Refused
        kind_pointer_invariant_def)

text \<open>
  C9. \<open>operator() (c, r)\<close> is the linear access at \<open>r * cols + c\<close>: both read
  \<open>raw\<close> at the same \<open>int\<close> offset, for every pair of indices. For a well-formed buffer
  whose extents do not overflow \<open>int\<close> and a valid pair \<open>0 \<le> c < cols\<close>,
  \<open>0 \<le> r < rows\<close>, the offset is the row-major position \<open>r * cols + c\<close> as a natural
  number, that element lies inside the storage, and both accesses return its bytes.
\<close>

theorem call_agrees_with_index:
  "operator_call sz m c r h = operator_index sz m (r * cols m + c) h
   \<and> (wf_matrix sz h m \<and> allocationType m \<noteq> Empty
        \<and> 0 \<le>s c \<and> c <s cols m \<and> 0 \<le>s r \<and> r <s rows m
        \<and> sint (rows m) * sint (cols m) < 2 ^ 31
      \<longrightarrow> (\<exists>a b. raw m = Addr a \<and> block_at h a = Some b
             \<and> nat (sint r) * nat (sint (cols m)) + nat (sint c) < nat (sint (size_matrix m))
             \<and> unat sz * (nat (sint r) * nat (sint (cols m)) + nat (sint c) + 1)
                 \<le> length (cells b)
             \<and> operator_call sz m c r h
                 = Inr (take (unat sz)
                         (drop (unat sz * (nat (sint r) * nat (sint (cols m)) + nat (sint c)))
                            (cells b)))))"
proof (intro conjI impI)
  show "operator_call sz m c r h = operator_index sz m (r * cols m + c) h"
    by (simp add: operator_call_def operator_index_def cols_def)
next
  assume a: "wf_matrix sz h m \<and> allocationType m \<noteq> Empty
        \<and> 0 \<le>s c \<and> c <s cols m \<and> 0 \<le>s r \<and> r <s rows m
        \<and> sint (rows m) * sint (cols m) < 2 ^ 31"
  then have idx: "0 \<le>s c" "c <s col m" "0 \<le>s r" "r <s row m"
      "sint (row m) * sint (col m) < 2 ^ 31"
    by (simp_all add: rows_def cols_def)
  from a wf_matrix_live obtain a' b where
    l: "raw m = Addr a'" "block_at h a' = Some b"
       "length (cells b) = unat sz * nat (sint (size_matrix m))"
    by blast
  note o = row_major_offset [OF idx]
  define k where "k = nat (sint r) * nat (sint (col m)) + nat (sint c)"
  have nn: "0 \<le> sint r" "0 \<le> sint c" "0 \<le> sint (col m)"
    using idx by (simp_all add: word_sle_eq word_sless_alt)
  have off: "nat (sint (r * col m + c)) = k"
    using nn by (simp add: k_def o(1) nat_add_distrib nat_mult_distrib)
  have inside: "k < nat (sint (size_matrix m))"
    using o(2,3) by (simp add: off [symmetric] size_matrix_def)
  then have "unat sz * (k + 1) \<le> unat sz * nat (sint (size_matrix m))"
    by (intro mult_le_mono2) simp
  then have fits: "unat sz * (k + 1) \<le> length (cells b)"
    by (simp only: l(3))
  have "operator_call sz m c r h = Inr (take (unat sz) (drop (unat sz * k) (cells b)))"
    using o(2) fits by (simp add: operator_call_def subscript_def l(1,2) word_sle_eq off)
  with inside fits l(1,2)
  show "\<exists>a b. raw m = Addr a \<and> block_at h a = Some b
             \<and> nat (sint r) * nat (sint (cols m)) + nat (sint c) < nat (sint (size_matrix m))
             \<and> unat sz * (nat (sint r) * nat (sint (cols m)) + nat (sint c) + 1)
                 \<le> length (cells b)
             \<and> operator_call sz m c r h
                 = Inr (take (unat sz)
                         (drop (unat sz * (nat (sint r) * nat (sint (cols m)) + nat (sint c)))
                            (cells b)))"
    by (simp add: k_def cols_def)
qed

theorem call_agrees_with_index_witness:
  "wf_matrix 2 [Some \<lparr>space = HostMem,
                       cells = [10, 11, 20, 21, 30, 31, 40, 41, 50, 51, 60, 61]\<rparr>]
     \<lparr>raw = Addr 0, col = 3, row = 2, allocationType = CPU\<rparr>
   \<and> allocationType \<lparr>raw = Addr 0, col = 3, row = 2, allocationType = CPU\<rparr> \<noteq> Empty
   \<and> (0 :: cint) \<le>s 1
   \<and> 1 <s cols \<lparr>raw = Addr 0, col = 3, row = 2, allocationType = CPU\<rparr>
   \<and> 1 <s rows \<lparr>raw = Addr 0, col = 3, row = 2, allocationType = CPU\<rparr>
   \<and> sint (rows \<lparr>raw = Addr 0, col = 3, row = 2, allocationType = CPU\<rparr>)
       * sint (cols \<lparr>raw = Addr 0, col = 3, row = 2, allocationType = CPU\<rparr>) < 2 ^ 31
   \<and> operator_call 2 \<lparr>raw = Addr 0, col = 3, row = 2, allocationType = CPU\<rparr> 1 1
        [Some \<lparr>space = HostMem,
               cells = [10, 11, 20, 21, 30, 31, 40, 41, 50, 51, 60, 61]\<rparr>]
      = operator_index 2 \<lparr>raw = Addr 0, col = 3, row = 2, allocationType = CPU\<rparr>
          (1 * cols \<lparr>raw = Addr 0, col = 3, row = 2, allocationType = CPU\<rparr> + 1)
          [Some \<lparr>space = HostMem,
                 cells = [10, 11, 20, 21, 30, 31, 40, 41, 50, 51, 60, 61]\<rparr>]
   \<and> operator_call 2 \<lparr>raw = Addr 0, col = 3, row = 2, allocationType = CPU\<rparr> 1 1
        [Some \<lparr>space = HostMem,
               cells = [10, 11, 20, 21, 30, 31, 40, 41, 50, 51, 60, 61]\<rparr>]
      = Inr [50, 51]"
proof -
  let ?h = "[Some \<lparr>space = HostMem,
                    cells = [10, 11, 20, 21, 30, 31, 40, 41, 50, 51, 60, 61]\<rparr>]"
  let ?m = "\<lparr>raw = Addr 0, col = 3, row = 2, allocationType = CPU\<rparr>"
  have 1: "wf_matrix 2 ?h ?m"
    by (simp add: wf_matrix_def space_of_def block_at_def size_matrix_def word_sle_eq)
  have 2: "allocationType ?m \<noteq> Empty" by simp
  have 3: "(0 :: cint) \<le>s 1" "1 <s cols ?m" "1 <s rows ?m"
    by (simp_all add: cols_def rows_def word_sle_eq word_sless_alt)
  have 4: "sint (rows ?m) * sint (cols ?m) < 2 ^ 31"
    by (simp add: cols_def rows_def)
  note t = call_agrees_with_index [of 2 ?m 1 1 ?h]
  from t have eq: "operator_call 2 ?m 1 1 ?h = operator_index 2 ?m (1 * cols ?m + 1) ?h"
    by (rule conjunct1)
  from t 1 2 3 4 obtain a b where
    ab: "raw ?m = Addr a" "block_at ?h a = Some b"
        "operator_call 2 ?m 1 1 ?h
           = Inr (take (unat (2 :: size_t))
                   (drop (unat (2 :: size_t)
                            * (nat (sint (1 :: cint)) * nat (sint (cols ?m)) + nat (sint (1 :: cint))))
                      (cells b)))"
    by blast
  from ab(1) have "a = 0" by simp
  with ab(2) have "b = \<lparr>space = HostMem,
                         cells = [10, 11, 20, 21, 30, 31, 40, 41, 50, 51, 60, 61]\<rparr>"
    by (simp add: block_at_def)
  with ab(3) have val: "operator_call 2 ?m 1 1 ?h = Inr [50, 51]"
    by (simp add: cols_def)
  from 1 2 3 4 eq val show ?thesis by (intro conjI)
qed

text \<open>
  C10. When both kinds select a transfer branch, the count handed to the transfer is
  \<open>sizeof(T)\<close> times the destination's \<open>size()\<close> (as \<open>size_t\<close>), whatever the source's
  extents are: replacing the source's \<open>col\<close> and \<open>row\<close> changes nothing. When the call
  returns, the destination's storage holds the first so many bytes of the source's
  storage followed by what it held beyond them, and the source's storage is at least
  that long. For well-formed buffers with the destination no larger than the source the
  call does return, and the destination then holds exactly the first \<open>dst.size()\<close>
  elements of the source.
\<close>

theorem copyFrom_count_is_destination_size:
  assumes "allocationType dst \<noteq> Empty" and "allocationType src \<noteq> Empty"
  shows "copyFrom sz dst (src\<lparr>col := c, row := r\<rparr>) h = copyFrom sz dst src h
       \<and> (\<forall>dst' h'. copyFrom sz dst src h = Inr (dst', h') \<longrightarrow>
            (\<exists>da sa db sb. raw dst = Addr da \<and> raw src = Addr sa
               \<and> block_at h da = Some db \<and> block_at h sa = Some sb
               \<and> unat (sz * scast (size_matrix dst)) \<le> length (cells sb)
               \<and> h' = h[da := Some (db\<lparr>cells :=
                           take (unat (sz * scast (size_matrix dst))) (cells sb)
                           @ drop (unat (sz * scast (size_matrix dst))) (cells db)\<rparr>)]))
       \<and> (wf_matrix sz h dst \<and> wf_matrix sz h src \<and> size_matrix dst \<le>s size_matrix src \<longrightarrow>
            (\<exists>h'. copyFrom sz dst src h = Inr (dst, h')
               \<and> unat (sz * scast (size_matrix dst)) = unat sz * nat (sint (size_matrix dst))
               \<and> contents sz h' dst
                   = map_option (take (unat sz * nat (sint (size_matrix dst))))
                       (contents sz h src)))"
proof (intro conjI allI impI)
  show "copyFrom sz dst (src\<lparr>col := c, row := r\<rparr>) h = copyFrom sz dst src h"
    using assms by (simp add: copyFrom_dispatch)
next
  fix dst' h'
  assume "copyFrom sz dst src h = Inr (dst', h')"
  from copyFrom_Inr_effect [OF assms this]
  show "\<exists>da sa db sb. raw dst = Addr da \<and> raw src = Addr sa
               \<and> block_at h da = Some db \<and> block_at h sa = Some sb
               \<and> unat (sz * scast (size_matrix dst)) \<le> length (cells sb)
               \<and> h' = h[da := Some (db\<lparr>cells :=
                           take (unat (sz * scast (size_matrix dst))) (cells sb)
                           @ drop (unat (sz * scast (size_matrix dst))) (cells db)\<rparr>)]"
    unfolding transfer_count_def by blast
next
  assume a: "wf_matrix sz h dst \<and> wf_matrix sz h src \<and> size_matrix dst \<le>s size_matrix src"
  from a wf_matrix_live [OF _ assms(1)] obtain da db where
    d: "raw dst = Addr da" "block_at h da = Some db"
       "space_of (allocationType dst) = Some (space db)"
       "0 \<le>s size_matrix dst"
       "length (cells db) = unat sz * nat (sint (size_matrix dst))"
       "length (cells db) = unat (transfer_count sz dst)"
    by blast
  from a wf_matrix_live [OF _ assms(2)] obtain sa sb where
    s: "raw src = Addr sa" "block_at h sa = Some sb"
       "space_of (allocationType src) = Some (space sb)"
       "0 \<le>s size_matrix src"
       "length (cells sb) = unat sz * nat (sint (size_matrix src))"
       "length (cells sb) = unat (transfer_count sz src)"
    by blast
  define n where "n = unat (transfer_count sz dst)"
  have n_eq: "n = unat sz * nat (sint (size_matrix dst))"
    using d(5,6) by (simp add: n_def)
  have "sint (size_matrix dst) \<le> sint (size_matrix src)"
    using a by (simp add: word_sle_eq)
  then have "nat (sint (size_matrix dst)) \<le> nat (sint (size_matrix src))"
    by (rule nat_mono)
  then have le: "n \<le> length (cells sb)"
    by (simp add: n_eq s(5))
  have full: "n = length (cells db)" using d(6) by (simp add: n_def)
  define h' where "h' = h[da := Some (db\<lparr>cells := take n (cells sb) @ drop n (cells db)\<rparr>)]"
  have da_less: "da < length h" using d(2) by (rule block_at_Some_less)
  have "transfer (side_of (allocationType dst)) (side_of (allocationType src))
          (Addr da) (Addr sa) n h = Inr h'"
    unfolding h'_def
    using le full
    by (intro transfer_ok) (simp_all add: d(2,3) s(2,3) side_of_space_of)
  then have run: "copyFrom sz dst src h = Inr (dst, h')"
    by (simp add: copyFrom_dispatch [OF assms] d(1) s(1) n_def)
  have new: "block_at h' da = Some (db\<lparr>cells := take n (cells sb)\<rparr>)"
    using da_less by (simp add: h'_def block_at_update full)
  have c_dst: "contents sz h' dst = Some (take n (cells sb))"
    by (simp add: contents_def d(1) new n_def [symmetric])
  have c_src: "contents sz h src = Some (cells sb)"
    by (simp add: contents_def s(1,2,6))
  have cnt: "unat (sz * scast (size_matrix dst)) = unat sz * nat (sint (size_matrix dst))"
    using n_eq by (simp add: n_def transfer_count_def)
  from run c_dst c_src n_eq cnt
  show "\<exists>h'. copyFrom sz dst src h = Inr (dst, h')
               \<and> unat (sz * scast (size_matrix dst)) = unat sz * nat (sint (size_matrix dst))
               \<and> contents sz h' dst
                   = map_option (take (unat sz * nat (sint (size_matrix dst))))
                       (contents sz h src)"
    by simp
qed

theorem copyFrom_count_is_destination_size_witness:
  "allocationType \<lparr>raw = Addr 0, col = 2, row = 1, allocationType = CPU\<rparr> \<noteq> Empty
   \<and> allocationType \<lparr>raw = Addr 1, col = 2, row = 2, allocationType = CPU\<rparr> \<noteq> Empty
   \<and> wf_matrix 2 [Some \<lparr>space = HostMem, cells = [0, 0, 0, 0]\<rparr>,
                  Some \<lparr>space = HostMem, cells = [1, 2, 3, 4, 5, 6, 7, 8]\<rparr>]
        \<lparr>raw = Addr 0, col = 2, row = 1, allocationType = CPU\<rparr>
   \<and> wf_matrix 2 [Some \<lparr>space = HostMem, cells = [0, 0, 0, 0]\<rparr>,
                  Some \<lparr>space = HostMem, cells = [1, 2, 3, 4, 5, 6, 7, 8]\<rparr>]
        \<lparr>raw = Addr 1, col = 2, row = 2, allocationType = CPU\<rparr>
   \<and> size_matrix \<lparr>raw = Addr 0, col = 2, row = 1, allocationType = CPU\<rparr>
        \<le>s size_matrix \<lparr>raw = Addr 1, col = 2, row = 2, allocationType = CPU\<rparr>
   \<and> copyFrom 2 \<lparr>raw = Addr 0, col = 2, row = 1, allocationType = CPU\<rparr>
        \<lparr>raw = Addr 1, col = 7, row = 9, allocationType = CPU\<rparr>
        [Some \<lparr>space = HostMem, cells = [0, 0, 0, 0]\<rparr>,
         Some \<lparr>space = HostMem, cells = [1, 2, 3, 4, 5, 6, 7, 8]\<rparr>]
       = copyFrom 2 \<lparr>raw = Addr 0, col = 2, row = 1, allocationType = CPU\<rparr>
          \<lparr>raw = Addr 1, col = 2, row = 2, allocationType = CPU\<rparr>
          [Some \<lparr>space = HostMem, cells = [0, 0, 0, 0]\<rparr>,
           Some \<lparr>space = HostMem, cells = [1, 2, 3, 4, 5, 6, 7, 8]\<rparr>]
   \<and> (\<exists>h'. copyFrom 2 \<lparr>raw = Addr 0, col = 2, row = 1, allocationType = CPU\<rparr>
               \<lparr>raw = Addr 1, col = 2, row = 2, allocationType = CPU\<rparr>
               [Some \<lparr>space = HostMem, cells = [0, 0, 0, 0]\<rparr>,
                Some \<lparr>space = HostMem, cells = [1, 2, 3, 4, 5, 6, 7, 8]\<rparr>]
              = Inr (\<lparr>raw = Addr 0, col = 2, row = 1, allocationType = CPU\<rparr>, h')
            \<and> contents 2 h' \<lparr>raw = Addr 0, col = 2, row = 1, allocationType = CPU\<rparr>
                = Some [1, 2, 3, 4])"
proof -
  let ?h = "[Some \<lparr>space = HostMem, cells = [0, 0, 0, 0]\<rparr>,
             Some \<lparr>space = HostMem, cells = [1, 2, 3, 4, 5, 6, 7, 8]\<rparr>]"
  let ?d = "\<lparr>raw = Addr 0, col = 2, row = 1, allocationType = CPU\<rparr>"
  let ?s = "\<lparr>raw = Addr 1, col = 2, row = 2, allocationType = CPU\<rparr>"
  have 1: "allocationType ?d \<noteq> Empty" by simp
  have 2: "allocationType ?s \<noteq> Empty" by simp
  have 3: "wf_matrix 2 ?h ?d"
    by (simp add: wf_matrix_def space_of_def block_at_def size_matrix_def word_sle_eq)
  have 4: "wf_matrix 2 ?h ?s"
    by (simp add: wf_matrix_def space_of_def block_at_def size_matrix_def word_sle_eq)
  have 5: "size_matrix ?d \<le>s size_matrix ?s"
    by (simp add: size_matrix_def word_sle_eq)
  have 6: "map_option (take (unat (2 :: size_t) * nat (sint (size_matrix ?d)))) (contents 2 ?h ?s)
             = Some [1, 2, 3, 4]"
    by (simp add: contents_def block_at_def transfer_count_def size_matrix_def)
  from copyFrom_count_is_destination_size [OF 1 2, where sz = 2 and c = 7 and r = 9 and h = ?h]
    3 4 5
  have "copyFrom 2 ?d (?s\<lparr>col := 7, row := 9\<rparr>) ?h = copyFrom 2 ?d ?s ?h"
    and "\<exists>h'. copyFrom 2 ?d ?s ?h = Inr (?d, h')
           \<and> contents 2 h' ?d
               = map_option (take (unat (2 :: size_t) * nat (sint (size_matrix ?d))))
                   (contents 2 ?h ?s)"
    by blast+
  with 1 2 3 4 5 show ?thesis by (simp only: 6) simp
qed

end
